theory Spec2Isabelle
  imports Complex_Main "HOL-Library.Char_ord" "HOL-Library.List_Lexorder"
begin

section \<open>Text primitives of \<^verbatim>\<open>Disease_match.py\<close>\<close>

text \<open>
  Python strings are modelled as \<^typ>\<open>string\<close>, one \<^typ>\<open>char\<close> per character, and
  the character classes of \<^verbatim>\<open>str.lower\<close>, \<^verbatim>\<open>str.split\<close>, \<^verbatim>\<open>str.strip\<close>
  and of the regular expression classes \<^verbatim>\<open>\w\<close> and \<^verbatim>\<open>\s\<close> are the ones Python
  gives to the ASCII characters: a character outside ASCII is a caseless character that is
  neither a word character nor white space. Strings are ordered by code point,
  lexicographically, as Python compares them.
\<close>

definition code :: "char \<Rightarrow> nat" where
  "code c = of_char c"

definition is_upper :: "char \<Rightarrow> bool" where
  "is_upper c = (65 \<le> code c \<and> code c \<le> 90)"

definition lower_char :: "char \<Rightarrow> char" where
  "lower_char c = (if is_upper c then char_of (code c + 32) else c)"

text \<open>\<^verbatim>\<open>\s\<close>, and the separators of \<^verbatim>\<open>split()\<close> and \<^verbatim>\<open>strip()\<close>: tab, line feed,
  vertical tab, form feed, carriage return, the four separators 28 to 31, and the space.\<close>

definition is_space :: "char \<Rightarrow> bool" where
  "is_space c = ((9 \<le> code c \<and> code c \<le> 13) \<or> (28 \<le> code c \<and> code c \<le> 32))"

text \<open>\<^verbatim>\<open>\w\<close>: letters, digits and the underscore.\<close>

definition is_word :: "char \<Rightarrow> bool" where
  "is_word c = ((48 \<le> code c \<and> code c \<le> 57) \<or> (65 \<le> code c \<and> code c \<le> 90)
     \<or> code c = 95 \<or> (97 \<le> code c \<and> code c \<le> 122))"

definition str_lower :: "string \<Rightarrow> string" where
  "str_lower s = map lower_char s"

text \<open>\<^verbatim>\<open>re.sub(r"[^\w\s]", "", text)\<close>\<close>

definition strip_punct :: "string \<Rightarrow> string" where
  "strip_punct s = filter (\<lambda>c. is_word c \<or> is_space c) s"

text \<open>\<^verbatim>\<open>text.split()\<close>: the maximal runs of characters that are not white space. The
  first argument is the run read so far.\<close>

fun split_acc :: "string \<Rightarrow> string \<Rightarrow> string list" where
  "split_acc cur [] = (if cur = [] then [] else [cur])"
| "split_acc cur (c # cs) =
     (if is_space c then (if cur = [] then split_acc [] cs else cur # split_acc [] cs)
      else split_acc (cur @ [c]) cs)"

definition split_ws :: "string \<Rightarrow> string list" where
  "split_ws s = split_acc [] s"

text \<open>\<^verbatim>\<open>line.strip()\<close>\<close>

definition strip :: "string \<Rightarrow> string" where
  "strip s = rev (dropWhile is_space (rev (dropWhile is_space s)))"


text \<open>\<^verbatim>\<open>file_name.endswith(".txt")\<close>\<close>

definition endswith :: "string \<Rightarrow> string \<Rightarrow> bool" where
  "endswith s suffix =
     (length suffix \<le> length s \<and> drop (length s - length suffix) s = suffix)"

text \<open>\<^verbatim>\<open>s.replace(old, new)\<close> for a non-empty \<^verbatim>\<open>old\<close>: every occurrence, found from
  left to right without overlap, is replaced.\<close>

function str_replace :: "string \<Rightarrow> string \<Rightarrow> string \<Rightarrow> string" where
  "str_replace old new [] = []"
| "str_replace old new (c # cs) =
     (if old \<noteq> [] \<and> take (length old) (c # cs) = old
      then new @ str_replace old new (drop (length old) (c # cs))
      else c # str_replace old new cs)"
  by pat_completeness auto
termination
  by (relation "measure (\<lambda>(old, new, s). length s)") (auto simp: neq_Nil_conv)

text \<open>\<^verbatim>\<open>re.search(re.escape(dk), transcript_text)\<close>: the escaped pattern matches itself
  and nothing else, so the search succeeds when the pattern occurs at some position of
  the text. The characters are compared as they are.\<close>

fun re_search_escaped :: "string \<Rightarrow> string \<Rightarrow> bool" where
  "re_search_escaped dk [] = (dk = [])"
| "re_search_escaped dk (c # cs) = (take (length dk) (c # cs) = dk \<or> re_search_escaped dk cs)"

section \<open>Tokenisation: \<^verbatim>\<open>get_transcript_words\<close>\<close>

definition stop_words :: "string list" where
  "stop_words =
    [''a'', ''an'', ''and'', ''are'', ''as'', ''at'', ''be'', ''but'', ''by'', ''for'', ''if'',
     ''in'', ''is'', ''it'', ''its'', ''it'' @ [CHR 0x27] @ ''s'', ''of'', ''on'', ''or'', ''so'',
     ''such'', ''that'', ''the'', ''their'', ''then'', ''there'', ''these'', ''they'', ''this'',
     ''to'', ''was'', ''with'',
     ''i'', ''me'', ''my'', ''myself'', ''we'', ''our'', ''ours'', ''ourselves'', ''you'',
     ''your'', ''yours'', ''yourself'', ''yourselves'', ''he'', ''him'', ''his'',
     ''himself'', ''she'', ''her'', ''hers'', ''herself'', ''they'', ''them'', ''their'',
     ''theirs'', ''themselves'',
     ''am'', ''been'', ''being'', ''can'', ''could'', ''did'', ''do'', ''does'',
     ''doesn'' @ [CHR 0x27] @ ''t'', ''doing'', ''don'' @ [CHR 0x27] @ ''t'', ''get'', ''gets'',
     ''getting'', ''got'', ''gotten'', ''go'', ''goes'', ''going'', ''had'', ''has'',
     ''hasn'' @ [CHR 0x27] @ ''t'', ''have'', ''haven'' @ [CHR 0x27] @ ''t'', ''having'',
     ''is'', ''isn'' @ [CHR 0x27] @ ''t'', ''make'', ''makes'', ''making'', ''should'', ''used'',
     ''was'', ''wasn'' @ [CHR 0x27] @ ''t'', ''were'', ''weren'' @ [CHR 0x27] @ ''t'', ''will'',
     ''would'',
     ''about'', ''after'', ''against'', ''all'', ''almost'', ''also'', ''although'',
     ''always'', ''any'', ''anywhere'', ''because'', ''become'', ''before'', ''bit'',
     ''chapped'', ''clothes'', ''come'', ''concern'', ''cuts'', ''else'', ''especially'',
     ''even'', ''every'', ''feel'', ''feels'', ''feeling'', ''find'', ''found'', ''from'',
     ''further'', ''here'', ''how'', ''however'', ''just'', ''kind'', ''know'', ''like'',
     ''little'', ''look'', ''looks'', ''made'', ''many'', ''may'', ''more'', ''most'',
     ''much'', ''must'', ''now'', ''noticed'', ''onto'', ''other'', ''over'', ''own'',
     ''pexing'', ''quite'', ''read'', ''really'', ''see'', ''seen'', ''seem'', ''seemed'',
     ''see'', ''show'', ''since'', ''skin'', ''small'', ''some'', ''sometimes'', ''soon'',
     ''spot'', ''spread'', ''started'', ''still'', ''such'', ''than'', ''thank'', ''thanks'',
     ''that'' @ [CHR 0x27] @ ''s'', ''there'', ''therefore'', ''these'', ''those'',
     ''through'', ''time'', ''times'', ''today'', ''too'', ''try'', ''up'', ''upon'', ''us'',
     ''very'', ''want'', ''wanted'', ''way'', ''well'', ''what'', ''when'', ''where'',
     ''which'', ''while'', ''who'', ''whom'', ''why'', ''work'']"

text \<open>The words of the text that pass the filter of the set comprehension, in text
  order; the comprehension builds a set of them, and \<^verbatim>\<open>sorted\<close> returns its elements in
  increasing order, each once.\<close>

definition all_words :: "string \<Rightarrow> string list" where
  "all_words text = split_ws (strip_punct (str_lower text))"

definition found_keywords :: "string \<Rightarrow> string list" where
  "found_keywords text =
     filter (\<lambda>word. word \<notin> set stop_words \<and> length word > 2) (all_words text)"

definition get_transcript_words :: "string \<Rightarrow> string list" where
  "get_transcript_words text = sort (remdups (found_keywords text))"

section \<open>Scoring: \<^verbatim>\<open>match_disease\<close>\<close>

text \<open>
  Python's floats are modelled by the rationals: sums, products and quotients are exact.
  \<^verbatim>\<open>round(x, 1)\<close> is the multiple of one tenth nearest to \<open>x\<close>, the even one of two
  that are equally near.
\<close>

definition round_half_even :: "rat \<Rightarrow> int" where
  "round_half_even y =
     (let f = \<lfloor>y\<rfloor>; d = y - of_int f
      in if d < 1 / 2 then f else if 1 / 2 < d then f + 1 else if even f then f else f + 1)"

definition round1 :: "rat \<Rightarrow> rat" where
  "round1 x = of_int (round_half_even (x * 10)) / 10"

text \<open>
  The keyword folder as the function sees it: \<^verbatim>\<open>os.path.isdir\<close> is false
  (\<open>NoFolder\<close>), or \<^verbatim>\<open>os.listdir\<close> returns the names of the entries, in the order of
  the listing. Opening and reading an entry either raises (a missing or unreadable file, a
  directory, bytes that are not UTF-8), which both \<^verbatim>\<open>except\<close> clauses answer by
  skipping the entry, or gives the lines of the file.
\<close>

datatype opened = Unreadable | Lines "string list"

datatype folder = NoFolder | Folder "(string \<times> opened) list"

text \<open>A result is the tuple \<^verbatim>\<open>(disease_name, final, fuzzy, exact)\<close>.\<close>

type_synonym match_result = "string \<times> rat \<times> rat \<times> rat"

definition disease_of :: "match_result \<Rightarrow> string" where
  "disease_of r = fst r"

definition final_of :: "match_result \<Rightarrow> rat" where
  "final_of r = fst (snd r)"

definition fuzzy_of :: "match_result \<Rightarrow> rat" where
  "fuzzy_of r = fst (snd (snd r))"


definition stop_tokens :: "string list" where
  "stop_tokens = [''a'', ''an'', ''the'', ''is'', ''it'', ''i'', ''me'', ''my'', ''we'', ''you'',
     ''he'', ''she'', ''they'', ''small'', ''large'']"

definition extracted_of :: "string list \<Rightarrow> string list" where
  "extracted_of extracted_keywords =
     filter (\<lambda>k. length k \<ge> 3 \<and> k \<notin> set stop_tokens) extracted_keywords"

text \<open>\<^verbatim>\<open>[line.strip().lower() for line in f if line.strip()]\<close>\<close>

definition disease_keywords :: "string list \<Rightarrow> string list" where
  "disease_keywords lines = map (\<lambda>line. str_lower (strip line)) (filter (\<lambda>line. strip line \<noteq> []) lines)"

definition disease_keywords_long :: "string list \<Rightarrow> string list" where
  "disease_keywords_long lines = filter (\<lambda>dk. length dk \<ge> 3) (disease_keywords lines)"

text \<open>
  \<^verbatim>\<open>fuzz.partial_ratio\<close> belongs to the rapidfuzz library and is a parameter of the
  model. The inner loop keeps the best score seen so far, starting from 0; the outer loop
  adds the best score of each keyword to \<^verbatim>\<open>sum_best\<close>.
\<close>

fun best_loop :: "(string \<Rightarrow> string \<Rightarrow> rat) \<Rightarrow> string \<Rightarrow> string list \<Rightarrow> rat \<Rightarrow> rat" where
  "best_loop partial_ratio dk [] best = best"
| "best_loop partial_ratio dk (ek # eks) best =
     (let s = partial_ratio ek dk
      in best_loop partial_ratio dk eks (if s > best then s else best))"

fun sum_best_loop :: "(string \<Rightarrow> string \<Rightarrow> rat) \<Rightarrow> string list \<Rightarrow> string list \<Rightarrow> rat \<Rightarrow> rat" where
  "sum_best_loop partial_ratio extracted [] sum_best = sum_best"
| "sum_best_loop partial_ratio extracted (dk # dks) sum_best =
     sum_best_loop partial_ratio extracted dks (sum_best + best_loop partial_ratio dk extracted 0)"

definition avg_fuzzy :: "(string \<Rightarrow> string \<Rightarrow> rat) \<Rightarrow> string list \<Rightarrow> string list \<Rightarrow> rat" where
  "avg_fuzzy partial_ratio extracted dkl =
     (if dkl = [] then 0
      else sum_best_loop partial_ratio extracted dkl 0 / of_nat (length dkl))"

fun exact_loop :: "string list \<Rightarrow> string \<Rightarrow> nat \<Rightarrow> nat" where
  "exact_loop [] transcript_text exact_matches = exact_matches"
| "exact_loop (dk # dks) transcript_text exact_matches =
     exact_loop dks transcript_text
       (if re_search_escaped dk transcript_text then exact_matches + 1 else exact_matches)"

definition exact_divisor :: "string list \<Rightarrow> nat" where
  "exact_divisor dkl = max 1 (length dkl)"

definition exact_coverage :: "string list \<Rightarrow> string \<Rightarrow> rat" where
  "exact_coverage dkl transcript_text =
     (of_nat (exact_loop dkl transcript_text 0) / of_nat (exact_divisor dkl)) * 100"

definition final_score :: "rat \<Rightarrow> rat \<Rightarrow> rat" where
  "final_score fuzzy exact = 65 / 100 * fuzzy + 35 / 100 * exact"

text \<open>The body of the loop over the folder for one file that was read.\<close>

definition score_file ::
  "(string \<Rightarrow> string \<Rightarrow> rat) \<Rightarrow> string list \<Rightarrow> string \<Rightarrow> string \<Rightarrow> string list \<Rightarrow> match_result" where
  "score_file partial_ratio extracted transcript_text file_name lines =
     (let dkl = disease_keywords_long lines;
          fuzzy = avg_fuzzy partial_ratio extracted dkl;
          exact = exact_coverage dkl transcript_text
      in (str_replace ''.txt'' [] file_name,
          round1 (final_score fuzzy exact), round1 fuzzy, round1 exact))"

fun scan_folder ::
  "(string \<Rightarrow> string \<Rightarrow> rat) \<Rightarrow> string list \<Rightarrow> string \<Rightarrow> (string \<times> opened) list
     \<Rightarrow> match_result list \<Rightarrow> match_result list" where
  "scan_folder partial_ratio extracted transcript_text [] results = results"
| "scan_folder partial_ratio extracted transcript_text ((file_name, f) # rest) results =
     (if \<not> endswith file_name ''.txt''
      then scan_folder partial_ratio extracted transcript_text rest results
      else case f of
        Unreadable \<Rightarrow> scan_folder partial_ratio extracted transcript_text rest results
      | Lines lines \<Rightarrow>
          scan_folder partial_ratio extracted transcript_text rest
            (results @ [score_file partial_ratio extracted transcript_text file_name lines]))"

text \<open>
  \<^verbatim>\<open>sorted(results, key=lambda x: x[1], reverse=True)\<close>. Python's sort is stable, and
  with \<^verbatim>\<open>reverse=True\<close> it reverses the list, sorts it by increasing key and reverses
  the outcome. \<^const>\<open>sort_key\<close> is a stable sort by increasing key, and the outcome of a
  stable sort does not depend on the algorithm.
\<close>

definition sorted_reverse :: "match_result list \<Rightarrow> match_result list" where
  "sorted_reverse results = rev (sort_key final_of (rev results))"

text \<open>The results of the loop over the folder, in the order of the listing.\<close>

definition results_of ::
  "(string \<Rightarrow> string \<Rightarrow> rat) \<Rightarrow> string list \<Rightarrow> string \<Rightarrow> folder \<Rightarrow> match_result list" where
  "results_of partial_ratio extracted_keywords transcript_text keyword_folder =
     (case keyword_folder of
        NoFolder \<Rightarrow> []
      | Folder entries \<Rightarrow>
          scan_folder partial_ratio (extracted_of extracted_keywords) transcript_text entries [])"

text \<open>
  \<^verbatim>\<open>match_disease\<close> returns the pair of the best match and the sorted results. The
  alternative \<^verbatim>\<open>(None, 0)\<close> of the source's last conditional is never taken, the
  results being non-empty there.
\<close>

definition match_disease ::
  "(string \<Rightarrow> string \<Rightarrow> rat) \<Rightarrow> string list \<Rightarrow> string \<Rightarrow> folder
     \<Rightarrow> (string \<times> rat) \<times> match_result list" where
  "match_disease partial_ratio extracted_keywords transcript_text keyword_folder =
     (let extracted = extracted_of extracted_keywords
      in if extracted = [] then ((''NoKeywords'', 0), [])
         else case keyword_folder of
           NoFolder \<Rightarrow> ((''KeywordFolderNotFound'', 0), [])
         | Folder entries \<Rightarrow>
             (let results = scan_folder partial_ratio extracted transcript_text entries []
              in if results = [] then ((''NoKeywordFiles'', 0), [])
                 else (let sorted_results = sorted_reverse results
                       in ((disease_of (hd sorted_results), final_of (hd sorted_results)),
                           sorted_results))))"

section \<open>Notions and inputs used by the statements\<close>

text \<open>
  The category lists that a listing yields: the entries whose name ends in \<^verbatim>\<open>.txt\<close>
  and that could be read, with their lines, in the order of the listing.
\<close>

fun usable_lists :: "(string \<times> opened) list \<Rightarrow> (string \<times> string list) list" where
  "usable_lists [] = []"
| "usable_lists ((file_name, Unreadable) # rest) = usable_lists rest"
| "usable_lists ((file_name, Lines lines) # rest) =
     (if endswith file_name ''.txt'' then (file_name, lines) # usable_lists rest
      else usable_lists rest)"

text \<open>
  A similarity to run the model on concrete inputs: 100 when one string occurs in the
  other, 0 otherwise. On the pairs compared in the concrete inputs below, where one string
  occurs in the other or the two have no character in common, these are the values of
  \<^verbatim>\<open>fuzz.partial_ratio\<close>.
\<close>

definition sample_ratio :: "string \<Rightarrow> string \<Rightarrow> rat" where
  "sample_ratio s1 s2 =
     (if re_search_escaped s1 s2 \<or> re_search_escaped s2 s1 then 100 else 0)"

definition tie_folder :: folder where
  "tie_folder = Folder [(''cold.txt'', Lines [''cough'']), (''flu.txt'', Lines [''fever'']),
     (''asthma.txt'', Lines [''wheeze''])]"


definition eczema_folder :: folder where
  "eczema_folder = Folder [(''eczema.txt'', Lines [''itchy rash''])]"

text \<open>
  The fuzzy sub-score as the specification words it: for a non-empty list \<open>K\<close> of
  phrases, the sum over the phrases \<open>dk\<close> of \<open>K\<close> of the greatest
  \<^verbatim>\<open>partial_ratio(ek, dk)\<close> over the tokens \<open>ek\<close>, divided by the number of phrases;
  0 for the empty list.
\<close>

definition best_partial :: "(string \<Rightarrow> string \<Rightarrow> rat) \<Rightarrow> string list \<Rightarrow> string \<Rightarrow> rat" where
  "best_partial partial_ratio tokens dk = Max ((\<lambda>ek. partial_ratio ek dk) ` set tokens)"

definition fuzzy_spec :: "(string \<Rightarrow> string \<Rightarrow> rat) \<Rightarrow> string list \<Rightarrow> string list \<Rightarrow> rat" where
  "fuzzy_spec partial_ratio tokens K =
     (if K = [] then 0
      else (\<Sum>dk\<leftarrow>K. best_partial partial_ratio tokens dk) / of_nat (length K))"


section \<open>The loop over the folder\<close>

lemma scan_folder_usable:
  "scan_folder pr ex t entries results =
     results @ map (\<lambda>(n, ls). score_file pr ex t n ls) (usable_lists entries)"
  by (induction entries arbitrary: results rule: usable_lists.induct) simp_all

lemma usable_lists_mem:
  "(n, ls) \<in> set (usable_lists entries) \<longleftrightarrow> (n, Lines ls) \<in> set entries \<and> endswith n ''.txt''"
  by (induction entries rule: usable_lists.induct) auto


section \<open>The ranking\<close>

lemma set_sorted_reverse: "set (sorted_reverse rs) = set rs"
  by (simp add: sorted_reverse_def)

lemma sorted_reverse_desc: "sorted_wrt (\<lambda>a b. final_of b \<le> final_of a) (sorted_reverse rs)"
proof -
  have "sorted (map final_of (sort_key final_of (rev rs)))" by (rule sorted_sort_key)
  then have "sorted_wrt (\<lambda>a b. final_of a \<le> final_of b) (sort_key final_of (rev rs))"
    by (simp add: sorted_map)
  then show ?thesis by (simp add: sorted_reverse_def sorted_wrt_rev)
qed

lemma sorted_reverse_stable:
  "filter (\<lambda>r. final_of r = k) (sorted_reverse rs) = filter (\<lambda>r. final_of r = k) rs"
proof -
  have "filter (\<lambda>r. final_of r = k) (sorted_reverse rs)
      = rev (filter (\<lambda>r. final_of r = k) (sort_key final_of (rev rs)))"
    by (simp add: sorted_reverse_def rev_filter)
  also have "\<dots> = rev (filter (\<lambda>r. final_of r = k) (rev rs))"
    by (simp only: sort_key_stable)
  also have "\<dots> = filter (\<lambda>r. final_of r = k) rs"
    by (simp add: rev_filter)
  finally show ?thesis .
qed

lemma match_disease_ranked:
  "snd (match_disease pr eks t folder) =
     (if extracted_of eks = [] then [] else sorted_reverse (results_of pr eks t folder))"
  by (simp add: match_disease_def results_of_def Let_def sorted_reverse_def split: folder.splits)

text \<open>
  Claim C4. When \<^verbatim>\<open>match_disease\<close> returns a non-empty list, the list is in
  non-increasing order of final score; for every score, the results with that score
  appear in it in the order in which the loop over the folder produced them (the sort is
  stable); and the best match is the name and the final score of the head of the list.
\<close>

theorem match_disease_ranking:
  assumes "match_disease pr eks t folder = (best, ranked)" and "ranked \<noteq> []"
  shows "sorted_wrt (\<lambda>a b. final_of b \<le> final_of a) ranked
     \<and> (\<forall>k. filter (\<lambda>r. final_of r = k) ranked
            = filter (\<lambda>r. final_of r = k) (results_of pr eks t folder))
     \<and> best = (disease_of (hd ranked), final_of (hd ranked))"
proof -
  from assms have ex: "extracted_of eks \<noteq> []"
    by (auto simp: match_disease_def)
  from assms ex obtain entries where f: "folder = Folder entries"
    by (cases folder) (auto simp: match_disease_def)
  let ?rs = "scan_folder pr (extracted_of eks) t entries []"
  from assms ex f have ne: "?rs \<noteq> []"
    by (auto simp: match_disease_def Let_def split: if_splits)
  from assms ex f ne have r: "ranked = sorted_reverse ?rs"
    and b: "best = (disease_of (hd (sorted_reverse ?rs)), final_of (hd (sorted_reverse ?rs)))"
    by (auto simp: match_disease_def Let_def)
  have ro: "results_of pr eks t folder = ?rs" by (simp add: results_of_def f)
  show ?thesis
    unfolding r ro using b by (simp add: sorted_reverse_desc sorted_reverse_stable)
qed

theorem match_disease_ranking_witness:
  "match_disease sample_ratio [''fever''] ''fever'' tie_folder
     = ((''flu'', 100), [(''flu'', 100, 100, 100), (''cold'', 0, 0, 0), (''asthma'', 0, 0, 0)])
   \<and> results_of sample_ratio [''fever''] ''fever'' tie_folder
     = [(''cold'', 0, 0, 0), (''flu'', 100, 100, 100), (''asthma'', 0, 0, 0)]
   \<and> sorted_wrt (\<lambda>a b. final_of b \<le> final_of a)
        [(''flu'', 100, 100, 100), (''cold'', 0, 0, 0), (''asthma'', 0, 0, 0)]
   \<and> (\<forall>k. filter (\<lambda>r. final_of r = k)
              [(''flu'', 100, 100, 100), (''cold'', 0, 0, 0), (''asthma'', 0, 0, 0)]
          = filter (\<lambda>r. final_of r = k)
              [(''cold'', 0, 0, 0), (''flu'', 100, 100, 100), (''asthma'', 0, 0, 0)])"
proof -
  have m: "match_disease sample_ratio [''fever''] ''fever'' tie_folder
     = ((''flu'', 100), [(''flu'', 100, 100, 100), (''cold'', 0, 0, 0), (''asthma'', 0, 0, 0)])"
    by code_simp
  have n: "[(''flu'', 100, 100, 100), (''cold'', 0, 0, 0), (''asthma'', 0, 0, 0 :: rat)] \<noteq> []"
    by simp
  have rs: "results_of sample_ratio [''fever''] ''fever'' tie_folder
     = [(''cold'', 0, 0, 0), (''flu'', 100, 100, 100), (''asthma'', 0, 0, 0)]"
    by code_simp
  from match_disease_ranking [OF m n] show ?thesis unfolding rs using m rs by blast
qed

section \<open>The sentinel results\<close>

text \<open>
  Claim C5. When no token is left after the stop-token filter and the filter on length
  at least 3, \<^verbatim>\<open>match_disease\<close> returns the pair \<^verbatim>\<open>("NoKeywords", 0)\<close> and the empty
  list, whatever the keyword folder is.
\<close>

theorem match_disease_no_keywords:
  "extracted_of eks = [] \<Longrightarrow> match_disease pr eks t folder = ((''NoKeywords'', 0), [])"
  by (simp add: match_disease_def)

theorem match_disease_no_keywords_witness:
  "extracted_of (get_transcript_words ''the a it is'') = []
   \<and> match_disease sample_ratio (get_transcript_words ''the a it is'') ''the a it is''
         (Folder [(''flu.txt'', Lines [''fever''])]) = ((''NoKeywords'', 0), [])"
proof -
  have h: "extracted_of (get_transcript_words ''the a it is'') = []" by code_simp
  from match_disease_no_keywords [OF h] h show ?thesis by simp
qed

text \<open>
  Claim C6. When some token is left after the filters and the keyword folder does not
  exist, \<^verbatim>\<open>match_disease\<close> returns the pair \<^verbatim>\<open>("KeywordFolderNotFound", 0)\<close> and the
  empty list: a value, not an exception.
\<close>

theorem match_disease_folder_not_found:
  "extracted_of eks \<noteq> []
     \<Longrightarrow> match_disease pr eks t NoFolder = ((''KeywordFolderNotFound'', 0), [])"
  by (simp add: match_disease_def)

theorem match_disease_folder_not_found_witness:
  "extracted_of [''fever''] \<noteq> []
   \<and> match_disease sample_ratio [''fever''] ''fever'' NoFolder
       = ((''KeywordFolderNotFound'', 0), [])"
proof -
  have h: "extracted_of [''fever''] \<noteq> []" by code_simp
  from match_disease_folder_not_found [OF h] h show ?thesis by simp
qed



section \<open>Rounding and the bounds of the scores\<close>




lemma round1_zero: "round1 0 = 0"
  by (simp add: round1_def round_half_even_def)



lemma sum_best_loop_sum:
  "sum_best_loop pr ex dkl acc = acc + sum_list (map (\<lambda>dk. best_loop pr dk ex 0) dkl)"
  by (induction dkl arbitrary: acc) simp_all



lemma exact_loop_count:
  "exact_loop dkl t n = n + length (filter (\<lambda>dk. re_search_escaped dk t) dkl)"
  by (induction dkl arbitrary: n) simp_all







section \<open>The fuzzy sub-score\<close>

lemma best_loop_Max:
  "best_loop pr dk eks best = Max (insert best ((\<lambda>ek. pr ek dk) ` set eks))"
proof (induction eks arbitrary: best)
  case Nil
  show ?case by simp
next
  case (Cons ek eks)
  have "(if best < pr ek dk then pr ek dk else best) = max best (pr ek dk)"
    by (simp add: max_def)
  then have "best_loop pr dk (ek # eks) best
      = Max (insert (max best (pr ek dk)) ((\<lambda>ek. pr ek dk) ` set eks))"
    by (simp add: Let_def Cons.IH)
  also have "\<dots> = Max (insert best (insert (pr ek dk) ((\<lambda>ek. pr ek dk) ` set eks)))"
    by (cases "eks = []") (simp_all add: max.assoc)
  finally show ?case by simp
qed

lemma best_loop_best_partial:
  assumes "\<forall>ek dk. 0 \<le> pr ek dk" and "eks \<noteq> []"
  shows "best_loop pr dk eks 0 = best_partial pr eks dk"
proof -
  let ?S = "(\<lambda>ek. pr ek dk) ` set eks"
  from assms(2) have ne: "?S \<noteq> {}" by simp
  from assms(2) obtain ek where "ek \<in> set eks" by (cases eks) auto
  then have "pr ek dk \<in> ?S" by simp
  then have "pr ek dk \<le> Max ?S" by simp
  with assms(1) have "0 \<le> Max ?S" by (meson order_trans)
  then have "Max (insert 0 ?S) = Max ?S"
    using ne by (simp add: max_def)
  then show ?thesis by (simp add: best_loop_Max best_partial_def)
qed

text \<open>
  Claim C2. Provided \<^verbatim>\<open>partial_ratio\<close> is never negative and some token is left after
  the filters, the fuzzy sub-score computed by the two loops is the one the specification
  words: the mean over the phrases of the category (of length at least 3) of the greatest
  partial ratio of a token with the phrase, and 0 when the category has no such phrase.
  The score reported in the result is its rounding to one decimal.
\<close>

theorem avg_fuzzy_mean_of_best:
  assumes "\<forall>ek dk. 0 \<le> pr ek dk" and "extracted_of eks \<noteq> []"
  shows "avg_fuzzy pr (extracted_of eks) (disease_keywords_long lines)
       = fuzzy_spec pr (extracted_of eks) (disease_keywords_long lines)
     \<and> fuzzy_of (score_file pr (extracted_of eks) t file_name lines)
       = round1 (fuzzy_spec pr (extracted_of eks) (disease_keywords_long lines))"
proof -
  have "avg_fuzzy pr (extracted_of eks) K = fuzzy_spec pr (extracted_of eks) K" for K
    by (simp add: avg_fuzzy_def fuzzy_spec_def sum_best_loop_sum
        best_loop_best_partial [OF assms])
  then show ?thesis
    by (simp add: score_file_def Let_def fuzzy_of_def)
qed

theorem avg_fuzzy_mean_of_best_witness:
  "(\<forall>ek dk. 0 \<le> sample_ratio ek dk) \<and> extracted_of [''fever'', ''rash''] \<noteq> []
   \<and> avg_fuzzy sample_ratio (extracted_of [''fever'', ''rash''])
        (disease_keywords_long [''High Fever'', ''cough'', ''no'']) = 50
   \<and> fuzzy_spec sample_ratio (extracted_of [''fever'', ''rash''])
        (disease_keywords_long [''High Fever'', ''cough'', ''no'']) = 50"
proof -
  have h: "\<forall>ek dk. 0 \<le> sample_ratio ek dk" by (simp add: sample_ratio_def)
  have n: "extracted_of [''fever'', ''rash''] \<noteq> []" by code_simp
  have a: "avg_fuzzy sample_ratio (extracted_of [''fever'', ''rash''])
        (disease_keywords_long [''High Fever'', ''cough'', ''no'']) = 50"
    by code_simp
  from avg_fuzzy_mean_of_best [OF h n, of "[''High Fever'', ''cough'', ''no'']"] a h n show ?thesis by simp
qed

section \<open>The exact sub-score\<close>

lemma re_search_escaped_iff:
  "re_search_escaped dk t \<longleftrightarrow> (\<exists>before after. t = before @ dk @ after)"
proof (induction t)
  case Nil
  show ?case by auto
next
  case (Cons c cs)
  have "take (length dk) (c # cs) = dk \<longleftrightarrow> (\<exists>after. c # cs = dk @ after)"
    by (metis append_eq_conv_conj append_take_drop_id)
  moreover have "(\<exists>before after. c # cs = before @ dk @ after)
      \<longleftrightarrow> (\<exists>after. c # cs = dk @ after) \<or> (\<exists>before after. cs = before @ dk @ after)"
  proof
    assume "\<exists>before after. c # cs = before @ dk @ after"
    then obtain before after where e: "c # cs = before @ dk @ after" by blast
    show "(\<exists>after. c # cs = dk @ after) \<or> (\<exists>before after. cs = before @ dk @ after)"
    proof (cases before)
      case Nil
      with e show ?thesis by auto
    next
      case (Cons b bs)
      with e have "cs = bs @ dk @ after" by simp
      then show ?thesis by blast
    qed
  next
    assume "(\<exists>after. c # cs = dk @ after) \<or> (\<exists>before after. cs = before @ dk @ after)"
    then show "\<exists>before after. c # cs = before @ dk @ after"
    proof
      assume "\<exists>after. c # cs = dk @ after"
      then obtain after where "c # cs = [] @ dk @ after" by auto
      then show ?thesis by blast
    next
      assume "\<exists>before after. cs = before @ dk @ after"
      then obtain before after where "c # cs = (c # before) @ dk @ after" by auto
      then show ?thesis by blast
    qed
  qed
  ultimately show ?case using Cons.IH by simp
qed

lemma exact_coverage_count:
  "exact_coverage dkl t
     = of_nat (length (filter (\<lambda>dk. \<exists>before after. t = before @ dk @ after) dkl))
         / of_nat (max 1 (length dkl)) * 100"
  by (simp add: exact_coverage_def exact_divisor_def exact_loop_count re_search_escaped_iff)

text \<open>
  Claim C3 at a concrete input. The keyword phrases are lowercased when the file is
  read, but the transcript text is searched as it is. For the transcript
  \<^verbatim>\<open>Itchy rash on my arm\<close> and the category with the single phrase \<^verbatim>\<open>itchy rash\<close> the
  exact sub-score is 0; for the same text in lower case it is 100.
\<close>

theorem exact_coverage_case_sensitive:
  "match_disease sample_ratio (get_transcript_words ''Itchy rash on my arm'')
       ''Itchy rash on my arm'' eczema_folder
     = ((''eczema'', 65), [(''eczema'', 65, 100, 0)])
   \<and> match_disease sample_ratio (get_transcript_words ''Itchy rash on my arm'')
       ''itchy rash on my arm'' eczema_folder
     = ((''eczema'', 100), [(''eczema'', 100, 100, 100)])"
  by code_simp

section \<open>A category without phrases\<close>

text \<open>
  Claim C10. When some token is left after the filters, a file of the folder that is
  named \<^verbatim>\<open>*.txt\<close>, is readable and has no phrase of length at least 3 still gives a
  result, with final, fuzzy and exact scores 0; the result is in the list returned, which
  is therefore not the \<^verbatim>\<open>NoKeywordFiles\<close> sentinel; and the divisor of the exact
  coverage is \<^verbatim>\<open>max(1, 0) = 1\<close>.
\<close>

theorem match_disease_empty_category:
  assumes "extracted_of eks \<noteq> []" and "(file_name, Lines lines) \<in> set entries"
    and "endswith file_name ''.txt''" and "disease_keywords_long lines = []"
  shows "score_file pr (extracted_of eks) t file_name lines
       = (str_replace ''.txt'' [] file_name, 0, 0, 0)
     \<and> (str_replace ''.txt'' [] file_name, 0, 0, 0)
         \<in> set (snd (match_disease pr eks t (Folder entries)))
     \<and> match_disease pr eks t (Folder entries) \<noteq> ((''NoKeywordFiles'', 0), [])
     \<and> exact_divisor (disease_keywords_long lines) = 1"
proof -
  have s: "score_file pr (extracted_of eks) t file_name lines
       = (str_replace ''.txt'' [] file_name, 0, 0, 0)"
    by (simp add: score_file_def Let_def assms(4) avg_fuzzy_def exact_coverage_def
        final_score_def round1_zero)
  from assms(2,3) have "(file_name, lines) \<in> set (usable_lists entries)"
    by (simp add: usable_lists_mem)
  then have "score_file pr (extracted_of eks) t file_name lines
      \<in> set (results_of pr eks t (Folder entries))"
    by (force simp: results_of_def scan_folder_usable)
  then have m: "score_file pr (extracted_of eks) t file_name lines
      \<in> set (snd (match_disease pr eks t (Folder entries)))"
    by (simp add: match_disease_ranked assms(1) set_sorted_reverse)
  then have "snd (match_disease pr eks t (Folder entries)) \<noteq> []" by auto
  then have "match_disease pr eks t (Folder entries) \<noteq> ((''NoKeywordFiles'', 0), [])"
    by auto
  with s m show ?thesis by (simp add: exact_divisor_def assms(4))
qed

theorem match_disease_empty_category_witness:
  "extracted_of [''fever''] \<noteq> []
   \<and> (''blank.txt'', Lines [''ab'', ''  ''])
       \<in> set [(''blank.txt'', Lines [''ab'', ''  '']), (''flu.txt'', Lines [''fever''])]
   \<and> endswith ''blank.txt'' ''.txt'' \<and> disease_keywords_long [''ab'', ''  ''] = []
   \<and> match_disease sample_ratio [''fever''] ''fever''
        (Folder [(''blank.txt'', Lines [''ab'', ''  '']), (''flu.txt'', Lines [''fever''])])
       = ((''flu'', 100), [(''flu'', 100, 100, 100), (''blank'', 0, 0, 0)])
   \<and> (str_replace ''.txt'' [] ''blank.txt'', 0, 0, 0)
       \<in> set (snd (match_disease sample_ratio [''fever''] ''fever''
        (Folder [(''blank.txt'', Lines [''ab'', ''  '']), (''flu.txt'', Lines [''fever''])])))"
proof -
  have h1: "extracted_of [''fever''] \<noteq> []" by code_simp
  have h2: "(''blank.txt'', Lines [''ab'', ''  ''])
       \<in> set [(''blank.txt'', Lines [''ab'', ''  '']), (''flu.txt'', Lines [''fever''])]"
    by simp
  have h3: "endswith ''blank.txt'' ''.txt''" by code_simp
  have h4: "disease_keywords_long [''ab'', ''  ''] = []" by code_simp
  have m: "match_disease sample_ratio [''fever''] ''fever''
        (Folder [(''blank.txt'', Lines [''ab'', ''  '']), (''flu.txt'', Lines [''fever''])])
       = ((''flu'', 100), [(''flu'', 100, 100, 100), (''blank'', 0, 0, 0)])"
    by code_simp
  from match_disease_empty_category [OF h1 h2 h3 h4] h1 h2 h3 h4 m show ?thesis by blast
qed

section \<open>The tokeniser\<close>














text \<open>
  Claim C8. No token returned by \<^verbatim>\<open>get_transcript_words\<close> is in the stop-word set, none
  has length 2 or less, and the list returned is strictly increasing (sorted, each token
  once) and holds exactly the words of the text that pass the two filters.
\<close>

theorem get_transcript_words_clean:
  "(\<forall>w\<in>set (get_transcript_words text). w \<notin> set stop_words \<and> 2 < length w)
   \<and> sorted_wrt (<) (get_transcript_words text)
   \<and> set (get_transcript_words text)
       = {w \<in> set (all_words text). w \<notin> set stop_words \<and> 2 < length w}"
proof -
  have s: "set (get_transcript_words text)
       = {w \<in> set (all_words text). w \<notin> set stop_words \<and> 2 < length w}"
    by (simp add: get_transcript_words_def found_keywords_def)
  have "sorted (get_transcript_words text) \<and> distinct (get_transcript_words text)"
    by (simp add: get_transcript_words_def)
  then have "sorted_wrt (<) (get_transcript_words text)"
    by (simp only: strict_sorted_iff)
  with s show ?thesis by simp
qed

theorem get_transcript_words_clean_witness:
  "get_transcript_words ''I have a Fever, and an itchy rash. The rash is itchy!''
     = [''fever'', ''itchy'', ''rash'']
   \<and> ''fever'' \<notin> set stop_words \<and> ''itchy'' \<notin> set stop_words \<and> ''rash'' \<notin> set stop_words
   \<and> sorted_wrt (<) [''fever'', ''itchy'', ''rash'']"
proof -
  have e: "get_transcript_words ''I have a Fever, and an itchy rash. The rash is itchy!''
     = [''fever'', ''itchy'', ''rash'']"
    by code_simp
  from get_transcript_words_clean [of "''I have a Fever, and an itchy rash. The rash is itchy!''"]
  have a: "\<forall>w\<in>set [''fever'', ''itchy'', ''rash'']. w \<notin> set stop_words \<and> 2 < length w"
    and b: "sorted_wrt (<) [''fever'', ''itchy'', ''rash'']"
    unfolding e by blast+
  from a have "''fever'' \<notin> set stop_words \<and> ''itchy'' \<notin> set stop_words
      \<and> ''rash'' \<notin> set stop_words"
    by (simp only: list.set ball_simps insert_iff) blast
  with e b show ?thesis by blast
qed


end
